theory Spec2Isabelle
  imports Main "HOL-Library.Word" "HOL-Library.Signed_Division"
begin

section \<open>Platform and configuration\<close>

text \<open>
  The module is written against \<^verbatim>\<open>clock()\<close>, \<^verbatim>\<open>clock_t\<close> and \<^verbatim>\<open>CLOCKS_PER_SEC\<close> of
  \<^verbatim>\<open><time.h>\<close>. They are fixed here as an LP64 POSIX target has them: \<^verbatim>\<open>clock_t\<close> is a
  signed 64-bit \<^verbatim>\<open>long\<close> and \<^verbatim>\<open>CLOCKS_PER_SEC\<close> is one million. Arithmetic on \<^verbatim>\<open>clock_t\<close>
  is two's-complement arithmetic on 64-bit words (\<open>+\<close> wraps, as the target's addition
  does), comparisons on it are signed (\<open>\<le>s\<close>), and division truncates towards zero
  (\<open>sdiv\<close> on the signed values). A \<^verbatim>\<open>uint32_t\<close> operand is widened to \<^verbatim>\<open>long\<close> by
  \<open>ucast\<close>.
\<close>

type_synonym clock_t = "64 word"

definition CLOCKS_PER_SEC :: clock_t where
  "CLOCKS_PER_SEC = 1000000"

definition XKTIMER_SINGLE_SHOT :: "8 word" where
  "XKTIMER_SINGLE_SHOT = 1"

definition XKTIMER_PERIODIC :: "8 word" where
  "XKTIMER_PERIODIC = 2"

definition XKTIMER_DUAL_STATE :: "8 word" where
  "XKTIMER_DUAL_STATE = 3"

definition XKTIMER_RESOLUTION :: clock_t where
  "XKTIMER_RESOLUTION = 1000"

definition XKTIMER_MAX_TIMERS :: "32 word" where
  "XKTIMER_MAX_TIMERS = 30"

section \<open>Data model\<close>

text \<open>
  A timer lives in storage owned by the caller and is handed to the module by pointer.
  A pointer is \<open>None\<close> (\<^verbatim>\<open>NULL\<close>) or the address of such storage; every address holds an
  \<^verbatim>\<open>xktimer_t\<close>. A callback is a function pointer, \<open>None\<close> when it is \<^verbatim>\<open>NULL\<close>.
\<close>

type_synonym addr = nat
type_synonym funptr = nat
type_synonym xktimer_ptr_t = "addr option"

record xktimer_t =
  type :: "8 word"
  enabled :: bool
  state :: "8 word"
  timeout :: "32 word"
  timeout2 :: "32 word"
  ticks :: clock_t
  callback :: "funptr option"

text \<open>
  Callback bodies belong to the host program. The model records every invocation in
  order: the function called, its \<^verbatim>\<open>int\<close> argument, and the contents of the timer at
  the moment of the call, which is what the callee finds there.
\<close>

datatype call = Call (fn: funptr) (arg: "32 word") (seen: xktimer_t)

text \<open>
  The state of the program as far as the module reads or writes it: the timers in
  memory, the array of registered pointers with its fill index (the build with
  \<^verbatim>\<open>XKTIMER_NO_MALLOC\<close>, an array of \<^verbatim>\<open>XKTIMER_MAX_TIMERS\<close> pointers), and the callback
  invocations made so far.
\<close>

record world =
  mem :: "addr \<Rightarrow> xktimer_t"
  xktimer_ref :: "xktimer_ptr_t list"
  xktimer_ref_idx :: "32 word"
  calls :: "call list"

section \<open>The module\<close>

text \<open>
  Every call of \<^verbatim>\<open>clock()\<close> is an input of the model: a function takes one reading
  (the raw value \<^verbatim>\<open>clock()\<close> returned) for each call it makes, in the order of the calls.
\<close>

definition xktimer_init :: "world \<Rightarrow> world" where
  "xktimer_init w = w\<lparr>xktimer_ref_idx := 0\<rparr>"

definition xktimer_assert :: "xktimer_ptr_t \<Rightarrow> bool" where
  "xktimer_assert timer = (timer \<noteq> None)"

text \<open>
  Both callers have checked that the index is below \<^verbatim>\<open>XKTIMER_MAX_TIMERS\<close>, so the write
  is inside the array; \<open>list_update\<close> leaves the list alone for an index outside it.
\<close>

definition xktimer_add_ptr :: "xktimer_ptr_t \<Rightarrow> world \<Rightarrow> bool \<times> world" where
  "xktimer_add_ptr timer w =
     (True, w\<lparr>xktimer_ref := (xktimer_ref w)[nat (sint (xktimer_ref_idx w)) := timer],
              xktimer_ref_idx := xktimer_ref_idx w + 1\<rparr>)"

text \<open>The \<^verbatim>\<open>/\<close> of C on \<^verbatim>\<open>long\<close>: the quotient of the signed values, truncated towards zero.\<close>

definition long_div :: "clock_t \<Rightarrow> clock_t \<Rightarrow> clock_t" where
  "long_div a b = word_of_int (sint a sdiv sint b)"

definition xktimer_clock :: "clock_t \<Rightarrow> clock_t" where
  "xktimer_clock c = long_div c (long_div CLOCKS_PER_SEC XKTIMER_RESOLUTION)"

definition xktimer_update_ticks :: "clock_t \<Rightarrow> xktimer_ptr_t \<Rightarrow> world \<Rightarrow> world" where
  "xktimer_update_ticks c timer w =
     (if \<not> xktimer_assert timer then w
      else let a = the timer; t = mem w a in
        if state t = 0
        then w\<lparr>mem := (mem w)(a := t\<lparr>ticks := xktimer_clock c + ucast (timeout t)\<rparr>)\<rparr>
        else w\<lparr>mem := (mem w)(a := t\<lparr>ticks := xktimer_clock c + ucast (timeout2 t)\<rparr>)\<rparr>)"

definition xktimer_add ::
  "clock_t \<Rightarrow> xktimer_ptr_t \<Rightarrow> 8 word \<Rightarrow> 32 word \<Rightarrow> funptr option \<Rightarrow> world \<Rightarrow> bool \<times> world"
where
  "xktimer_add c timer ty tmo cb w =
     (if \<not> xktimer_assert timer \<or> XKTIMER_MAX_TIMERS \<le>s xktimer_ref_idx w then (False, w)
      else let a = the timer;
               w1 = w\<lparr>mem := (mem w)(a := (mem w a)\<lparr>type := ty, enabled := False, state := 0,
                         timeout := tmo, timeout2 := 0, callback := cb\<rparr>)\<rparr>;
               w2 = xktimer_update_ticks c timer w1;
               w3 = snd (xktimer_add_ptr timer w2)
           in (True, w3))"

definition xktimer_add_dual ::
  "clock_t \<Rightarrow> xktimer_ptr_t \<Rightarrow> 32 word \<Rightarrow> 32 word \<Rightarrow> funptr option \<Rightarrow> world \<Rightarrow> bool \<times> world"
where
  "xktimer_add_dual c timer tmo tmo2 cb w =
     (if \<not> xktimer_assert timer \<or> XKTIMER_MAX_TIMERS \<le>s xktimer_ref_idx w then (False, w)
      else let a = the timer;
               w1 = w\<lparr>mem := (mem w)(a := (mem w a)\<lparr>type := XKTIMER_DUAL_STATE,
                         enabled := False, state := 0,
                         timeout := tmo, timeout2 := tmo2, callback := cb\<rparr>)\<rparr>;
               w2 = xktimer_update_ticks c timer w1;
               w3 = snd (xktimer_add_ptr timer w2)
           in (True, w3))"

definition xktimer_timeout :: "xktimer_ptr_t \<Rightarrow> world \<Rightarrow> 32 word" where
  "xktimer_timeout timer w =
     (if \<not> xktimer_assert timer then 0 else timeout (mem w (the timer)))"

definition xktimer_timeout2 :: "xktimer_ptr_t \<Rightarrow> world \<Rightarrow> 32 word" where
  "xktimer_timeout2 timer w =
     (if \<not> xktimer_assert timer then 0 else timeout2 (mem w (the timer)))"

text \<open>The subtrahend is the raw \<^verbatim>\<open>clock()\<close>, not \<^verbatim>\<open>xktimer_clock()\<close>.\<close>

definition xktimer_next_timeout :: "clock_t \<Rightarrow> xktimer_ptr_t \<Rightarrow> world \<Rightarrow> clock_t" where
  "xktimer_next_timeout c timer w =
     (if \<not> xktimer_assert timer then 0 else ticks (mem w (the timer)) - c)"

definition xktimer_set_timeout :: "clock_t \<Rightarrow> xktimer_ptr_t \<Rightarrow> 32 word \<Rightarrow> world \<Rightarrow> world" where
  "xktimer_set_timeout c timer tmo w =
     (if \<not> xktimer_assert timer then w
      else let a = the timer;
               w1 = w\<lparr>mem := (mem w)(a := (mem w a)\<lparr>timeout := tmo\<rparr>)\<rparr>
           in xktimer_update_ticks c timer w1)"

definition xktimer_set_timeout_dual ::
  "clock_t \<Rightarrow> xktimer_ptr_t \<Rightarrow> 32 word \<Rightarrow> 32 word \<Rightarrow> world \<Rightarrow> world"
where
  "xktimer_set_timeout_dual c timer tmo tmo2 w =
     (if \<not> xktimer_assert timer then w
      else let a = the timer;
               w1 = w\<lparr>mem := (mem w)(a := (mem w a)\<lparr>state := 0, timeout := tmo,
                         timeout2 := tmo2\<rparr>)\<rparr>
           in xktimer_update_ticks c timer w1)"

definition xktimer_start :: "clock_t \<Rightarrow> xktimer_ptr_t \<Rightarrow> world \<Rightarrow> world" where
  "xktimer_start c timer w =
     (if \<not> xktimer_assert timer then w
      else let a = the timer;
               w1 = w\<lparr>mem := (mem w)(a := (mem w a)\<lparr>enabled := True, state := 0\<rparr>)\<rparr>
           in xktimer_update_ticks c timer w1)"

definition xktimer_stop :: "xktimer_ptr_t \<Rightarrow> world \<Rightarrow> world" where
  "xktimer_stop timer w =
     (if \<not> xktimer_assert timer then w
      else let a = the timer in w\<lparr>mem := (mem w)(a := (mem w a)\<lparr>enabled := False\<rparr>)\<rparr>)"

definition xktimer_running :: "xktimer_ptr_t \<Rightarrow> world \<Rightarrow> bool" where
  "xktimer_running timer w =
     (if \<not> xktimer_assert timer then False else enabled (mem w (the timer)))"

text \<open>
  \<^verbatim>\<open>xktimer_periodic\<close> works on a tick variable of the caller: the model takes its value
  and returns the value it has afterwards. The clock is read once for the comparison
  and, when the period has passed, once more for the assignment.
\<close>

definition xktimer_periodic :: "clock_t \<Rightarrow> clock_t \<Rightarrow> clock_t \<Rightarrow> 32 word \<Rightarrow> bool \<times> clock_t" where
  "xktimer_periodic c1 c2 tks period =
     (if tks + ucast period \<le>s xktimer_clock c1 then (True, xktimer_clock c2)
      else (False, tks))"

text \<open>
  \<^verbatim>\<open>xktimer_handle\<close> reads the clock for the comparison (\<open>c1\<close>) and again inside
  \<^verbatim>\<open>xktimer_update_ticks\<close> (\<open>c2\<close>). The \<^verbatim>\<open>switch\<close> has no \<^verbatim>\<open>default\<close>: any other type
  falls through it.
\<close>

definition xktimer_handle :: "clock_t \<Rightarrow> clock_t \<Rightarrow> xktimer_ptr_t \<Rightarrow> world \<Rightarrow> world" where
  "xktimer_handle c1 c2 timer w =
     (if \<not> xktimer_assert timer \<or> \<not> enabled (mem w (the timer)) then w
      else let a = the timer; t = mem w a in
        if ticks t \<le>s xktimer_clock c1
        then let t1 = (if type t = XKTIMER_SINGLE_SHOT then t\<lparr>enabled := False\<rparr>
                       else if type t = XKTIMER_PERIODIC then t
                       else if type t = XKTIMER_DUAL_STATE
                            then (if state t = 0 then t\<lparr>state := 1\<rparr> else t\<lparr>state := 0\<rparr>)
                       else t);
                 w1 = w\<lparr>mem := (mem w)(a := t1)\<rparr>;
                 w2 = xktimer_update_ticks c2 timer w1;
                 t2 = mem w2 a
             in (case callback t2 of
                   None \<Rightarrow> w2
                 | Some f \<Rightarrow> w2\<lparr>calls := calls w2 @ [Call f (ucast (state t2)) t2]\<rparr>)
        else w)"

text \<open>
  The host's main loop calling \<^verbatim>\<open>xktimer_handle\<close> on one timer again and again: one pair
  of clock readings for each call.
\<close>

fun poll :: "xktimer_ptr_t \<Rightarrow> (clock_t \<times> clock_t) list \<Rightarrow> world \<Rightarrow> world" where
  "poll timer [] w = w"
| "poll timer (cc # cs) w = poll timer cs (xktimer_handle (fst cc) (snd cc) timer w)"

text \<open>
  Objects with static storage start zeroed: the registry, its index, and a timer
  declared at file scope as the examples of the header declare theirs.
\<close>

definition zeroed :: xktimer_t where
  "zeroed = \<lparr>type = 0, enabled = False, state = 0, timeout = 0, timeout2 = 0, ticks = 0,
             callback = None\<rparr>"

definition startup :: world where
  "startup = \<lparr>mem = (\<lambda>a. zeroed), xktimer_ref = replicate 30 None, xktimer_ref_idx = 0,
              calls = []\<rparr>"

text \<open>
  A host program is a sequence of calls into the module. \<open>exec\<close> makes one call and
  \<open>run\<close> a sequence of them; \<open>registers\<close> tells whether a call is a registration that
  returns true, and \<open>registrations\<close> counts those along a run.
\<close>

datatype command =
    Add clock_t xktimer_ptr_t "8 word" "32 word" "funptr option"
  | AddDual clock_t xktimer_ptr_t "32 word" "32 word" "funptr option"
  | SetTimeout clock_t xktimer_ptr_t "32 word"
  | SetTimeoutDual clock_t xktimer_ptr_t "32 word" "32 word"
  | Start clock_t xktimer_ptr_t
  | Stop xktimer_ptr_t
  | Handle clock_t clock_t xktimer_ptr_t

fun exec :: "command \<Rightarrow> world \<Rightarrow> world" where
  "exec (Add c timer ty tmo cb) w = snd (xktimer_add c timer ty tmo cb w)"
| "exec (AddDual c timer tmo tmo2 cb) w = snd (xktimer_add_dual c timer tmo tmo2 cb w)"
| "exec (SetTimeout c timer tmo) w = xktimer_set_timeout c timer tmo w"
| "exec (SetTimeoutDual c timer tmo tmo2) w = xktimer_set_timeout_dual c timer tmo tmo2 w"
| "exec (Start c timer) w = xktimer_start c timer w"
| "exec (Stop timer) w = xktimer_stop timer w"
| "exec (Handle c1 c2 timer) w = xktimer_handle c1 c2 timer w"

fun registers :: "command \<Rightarrow> world \<Rightarrow> bool" where
  "registers (Add c timer ty tmo cb) w = fst (xktimer_add c timer ty tmo cb w)"
| "registers (AddDual c timer tmo tmo2 cb) w = fst (xktimer_add_dual c timer tmo tmo2 cb w)"
| "registers (SetTimeout c timer tmo) w = False"
| "registers (SetTimeoutDual c timer tmo tmo2) w = False"
| "registers (Start c timer) w = False"
| "registers (Stop timer) w = False"
| "registers (Handle c1 c2 timer) w = False"

fun run :: "command list \<Rightarrow> world \<Rightarrow> world" where
  "run [] w = w"
| "run (x # xs) w = run xs (exec x w)"

fun registrations :: "command list \<Rightarrow> world \<Rightarrow> nat" where
  "registrations [] w = 0"
| "registrations (x # xs) w = (if registers x w then 1 else 0) + registrations xs (exec x w)"

text \<open>What one call of \<^verbatim>\<open>xktimer_handle\<close> leaves in the timer when its deadline has passed.\<close>

definition expired :: "clock_t \<Rightarrow> xktimer_t \<Rightarrow> xktimer_t" where
  "expired c2 t =
     (let t1 = (if type t = XKTIMER_SINGLE_SHOT then t\<lparr>enabled := False\<rparr>
                else if type t = XKTIMER_PERIODIC then t
                else if type t = XKTIMER_DUAL_STATE
                     then (if state t = 0 then t\<lparr>state := 1\<rparr> else t\<lparr>state := 0\<rparr>)
                else t)
      in t1\<lparr>ticks := xktimer_clock c2 +
             ucast (if state t1 = 0 then timeout t1 else timeout2 t1)\<rparr>)"

text \<open>
  The host's loop around \<^verbatim>\<open>xktimer_periodic\<close>: the tick variable is carried from one call
  to the next, and the results are collected in order.
\<close>

fun periodic_polls :: "clock_t \<Rightarrow> 32 word \<Rightarrow> (clock_t \<times> clock_t) list \<Rightarrow> bool list" where
  "periodic_polls tks period [] = []"
| "periodic_polls tks period (cc # cs) =
     fst (xktimer_periodic (fst cc) (snd cc) tks period) #
     periodic_polls (snd (xktimer_periodic (fst cc) (snd cc) tks period)) period cs"


section \<open>Clock arithmetic\<close>

lemma tick_divisor: "long_div CLOCKS_PER_SEC XKTIMER_RESOLUTION = 1000"
  by (simp add: long_div_def CLOCKS_PER_SEC_def XKTIMER_RESOLUTION_def)

lemma sint_long_bounds:
  "- 9223372036854775808 \<le> sint (c :: clock_t) \<and> sint c < 9223372036854775808"
  using sint_ge [of c] sint_lt [of c] by simp

lemma div_1000_bound:
  fixes k :: int
  assumes "0 \<le> k" "k \<le> 9223372036854775808"
  shows "0 \<le> k div 1000 \<and> k div 1000 \<le> 9223372036854775"
proof -
  have "k div 1000 \<le> 9223372036854775808 div 1000"
    using assms(2) by (rule zdiv_mono1) simp
  moreover have "0 \<le> k div 1000" using assms(1) by simp
  ultimately show ?thesis by simp
qed

lemma sdiv_1000_bounds:
  fixes k :: int
  assumes "- 9223372036854775808 \<le> k" "k < 9223372036854775808"
  shows "- 9223372036854775 \<le> k sdiv 1000 \<and> k sdiv 1000 \<le> 9223372036854775"
proof (cases "0 \<le> k")
  case True
  then have "k sdiv 1000 = k div 1000" by (simp add: signed_divide_int_def sgn_if)
  moreover have "0 \<le> k div 1000 \<and> k div 1000 \<le> 9223372036854775"
    using True assms by (intro div_1000_bound) simp_all
  ultimately show ?thesis by simp
next
  case False
  then have "k sdiv 1000 = - ((- k) div 1000)" by (simp add: signed_divide_int_def sgn_if)
  moreover have "0 \<le> (- k) div 1000 \<and> (- k) div 1000 \<le> 9223372036854775"
    using False assms by (intro div_1000_bound) simp_all
  ultimately show ?thesis by simp
qed

text \<open>The millisecond clock is the raw clock over 1000, truncated, and stays far from
  the ends of \<^verbatim>\<open>long\<close>.\<close>

lemma sint_xktimer_clock: "sint (xktimer_clock c) = sint c sdiv 1000"
proof -
  have b: "- 9223372036854775 \<le> sint c sdiv 1000 \<and> sint c sdiv 1000 \<le> 9223372036854775"
    using sdiv_1000_bounds sint_long_bounds by blast
  have "sint (word_of_int (sint c sdiv 1000) :: clock_t) = signed_take_bit 63 (sint c sdiv 1000)"
    by (simp add: sint_sbintrunc')
  also have "\<dots> = sint c sdiv 1000"
    by (rule signed_take_bit_int_eq_self) (use b in simp_all)
  finally show ?thesis by (simp add: xktimer_clock_def tick_divisor) (simp add: long_div_def)
qed

lemma xktimer_clock_bounds:
  "- 9223372036854775 \<le> sint (xktimer_clock c) \<and> sint (xktimer_clock c) \<le> 9223372036854775"
  unfolding sint_xktimer_clock using sdiv_1000_bounds sint_long_bounds by blast

lemma sint_ucast_timeout: "sint (ucast (T :: 32 word) :: clock_t) = uint T"
proof -
  have "sint (ucast T :: clock_t) = signed_take_bit 63 (uint T)"
    by (simp add: signed_ucast_eq)
  also have "\<dots> = uint T"
  proof (rule signed_take_bit_int_eq_self)
    have "- 9223372036854775808 \<le> uint T" using uint_nonnegative [of T] by linarith
    then show "- (2 ^ 63) \<le> uint T" by simp
    show "uint T < 2 ^ 63" using uint_lt2p [of T] by simp
  qed
  finally show ?thesis .
qed

text \<open>A deadline computed from a clock reading and a timeout never wraps.\<close>

lemma sint_deadline:
  "sint (xktimer_clock c + ucast (T :: 32 word)) = sint (xktimer_clock c) + uint T"
proof -
  have "sint (xktimer_clock c + ucast T) =
        signed_take_bit 63 (sint (xktimer_clock c) + sint (ucast T :: clock_t))"
    by (simp add: sint_word_ariths)
  also have "\<dots> = signed_take_bit 63 (sint (xktimer_clock c) + uint T)"
    by (simp add: sint_ucast_timeout)
  also have "\<dots> = sint (xktimer_clock c) + uint T"
  proof (rule signed_take_bit_int_eq_self)
    have "0 \<le> uint T" "uint T < 4294967296"
      using uint_nonnegative [of T] uint_lt2p [of T] by simp_all
    then have "- 9223372036854775808 \<le> sint (xktimer_clock c) + uint T"
      and "sint (xktimer_clock c) + uint T < 9223372036854775808"
      using xktimer_clock_bounds [of c] by linarith+
    then show "- (2 ^ 63) \<le> sint (xktimer_clock c) + uint T"
      and "sint (xktimer_clock c) + uint T < 2 ^ 63" by simp_all
  qed
  finally show ?thesis .
qed

lemma deadline_passed_iff:
  "xktimer_clock c0 + ucast (T :: 32 word) \<le>s xktimer_clock c1 \<longleftrightarrow>
   sint (xktimer_clock c0) + uint T \<le> sint (xktimer_clock c1)"
  by (simp add: word_sle_eq sint_deadline)

section \<open>The operations on a timer that is there\<close>

lemma xktimer_update_ticks_Some:
  "xktimer_update_ticks c (Some a) w =
     w\<lparr>mem := (mem w)(a := (mem w a)\<lparr>ticks := xktimer_clock c +
          ucast (if state (mem w a) = 0 then timeout (mem w a) else timeout2 (mem w a))\<rparr>)\<rparr>"
  by (simp add: xktimer_update_ticks_def xktimer_assert_def Let_def)

lemma xktimer_start_Some:
  "xktimer_start c (Some a) w =
     w\<lparr>mem := (mem w)(a := (mem w a)\<lparr>enabled := True, state := 0,
          ticks := xktimer_clock c + ucast (timeout (mem w a))\<rparr>)\<rparr>"
  by (simp add: xktimer_start_def xktimer_update_ticks_Some xktimer_assert_def Let_def)

lemma xktimer_stop_Some:
  "xktimer_stop (Some a) w = w\<lparr>mem := (mem w)(a := (mem w a)\<lparr>enabled := False\<rparr>)\<rparr>"
  by (simp add: xktimer_stop_def xktimer_assert_def Let_def)

lemma xktimer_set_timeout_Some:
  "xktimer_set_timeout c (Some a) tmo w =
     w\<lparr>mem := (mem w)(a := (mem w a)\<lparr>timeout := tmo,
          ticks := xktimer_clock c +
            ucast (if state (mem w a) = 0 then tmo else timeout2 (mem w a))\<rparr>)\<rparr>"
  by (simp add: xktimer_set_timeout_def xktimer_update_ticks_Some xktimer_assert_def Let_def)

lemma xktimer_set_timeout_dual_Some:
  "xktimer_set_timeout_dual c (Some a) tmo tmo2 w =
     w\<lparr>mem := (mem w)(a := (mem w a)\<lparr>state := 0, timeout := tmo, timeout2 := tmo2,
          ticks := xktimer_clock c + ucast tmo\<rparr>)\<rparr>"
  by (simp add: xktimer_set_timeout_dual_def xktimer_update_ticks_Some xktimer_assert_def
      Let_def)

lemma xktimer_add_Some:
  "xktimer_add c (Some a) ty tmo cb w =
     (if XKTIMER_MAX_TIMERS \<le>s xktimer_ref_idx w then (False, w)
      else (True, w\<lparr>mem := (mem w)(a := (mem w a)\<lparr>type := ty, enabled := False, state := 0,
                        timeout := tmo, timeout2 := 0, callback := cb,
                        ticks := xktimer_clock c + ucast tmo\<rparr>),
                     xktimer_ref := (xktimer_ref w)[nat (sint (xktimer_ref_idx w)) := Some a],
                     xktimer_ref_idx := xktimer_ref_idx w + 1\<rparr>))"
  by (simp add: xktimer_add_def xktimer_add_ptr_def xktimer_update_ticks_Some
      xktimer_assert_def Let_def)

lemma xktimer_add_dual_Some:
  "xktimer_add_dual c (Some a) tmo tmo2 cb w =
     (if XKTIMER_MAX_TIMERS \<le>s xktimer_ref_idx w then (False, w)
      else (True, w\<lparr>mem := (mem w)(a := (mem w a)\<lparr>type := XKTIMER_DUAL_STATE,
                        enabled := False, state := 0,
                        timeout := tmo, timeout2 := tmo2, callback := cb,
                        ticks := xktimer_clock c + ucast tmo\<rparr>),
                     xktimer_ref := (xktimer_ref w)[nat (sint (xktimer_ref_idx w)) := Some a],
                     xktimer_ref_idx := xktimer_ref_idx w + 1\<rparr>))"
  by (simp add: xktimer_add_dual_def xktimer_add_ptr_def xktimer_update_ticks_Some
      xktimer_assert_def Let_def)

lemma xktimer_None:
  "xktimer_add c None ty tmo cb w = (False, w)"
  "xktimer_add_dual c None tmo tmo2 cb w = (False, w)"
  "xktimer_set_timeout c None tmo w = w"
  "xktimer_set_timeout_dual c None tmo tmo2 w = w"
  "xktimer_start c None w = w"
  "xktimer_stop None w = w"
  "xktimer_handle c1 c2 None w = w"
  by (simp_all add: xktimer_add_def xktimer_add_dual_def xktimer_set_timeout_def
      xktimer_set_timeout_dual_def xktimer_start_def xktimer_stop_def xktimer_handle_def
      xktimer_assert_def)

lemma xktimer_handle_Some:
  "xktimer_handle c1 c2 (Some a) w =
     (if enabled (mem w a) \<and> ticks (mem w a) \<le>s xktimer_clock c1
      then w\<lparr>mem := (mem w)(a := expired c2 (mem w a)),
             calls := calls w @ (case callback (mem w a) of None \<Rightarrow> []
                       | Some f \<Rightarrow> [Call f (ucast (state (expired c2 (mem w a))))
                                     (expired c2 (mem w a))])\<rparr>
      else w)"
  by (simp add: xktimer_handle_def xktimer_update_ticks_Some xktimer_assert_def Let_def
      expired_def split: option.split)

lemma expired_fields:
  "type (expired c2 t) = type t"
  "timeout (expired c2 t) = timeout t"
  "timeout2 (expired c2 t) = timeout2 t"
  "callback (expired c2 t) = callback t"
  "enabled (expired c2 t) = (enabled t \<and> type t \<noteq> XKTIMER_SINGLE_SHOT)"
  "state (expired c2 t) =
     (if type t = XKTIMER_DUAL_STATE then (if state t = 0 then 1 else 0) else state t)"
  "ticks (expired c2 t) = xktimer_clock c2 +
     ucast (if state (expired c2 t) = 0 then timeout t else timeout2 t)"
  by (simp_all add: expired_def Let_def XKTIMER_SINGLE_SHOT_def XKTIMER_PERIODIC_def
      XKTIMER_DUAL_STATE_def)

text \<open>Evaluating the model at concrete inputs.\<close>

lemma xktimer_clock_eq: "xktimer_clock c = word_of_int (sint c sdiv 1000)"
  by (simp add: xktimer_clock_def tick_divisor) (simp add: long_div_def)

lemmas clock_simps = xktimer_clock_eq signed_divide_int_def word_sle_eq

lemmas run_simps = xktimer_handle_Some xktimer_start_Some xktimer_stop_Some
  xktimer_add_Some xktimer_add_dual_Some xktimer_set_timeout_Some
  xktimer_set_timeout_dual_Some xktimer_init_def startup_def zeroed_def expired_def Let_def
  XKTIMER_SINGLE_SHOT_def XKTIMER_PERIODIC_def XKTIMER_DUAL_STATE_def XKTIMER_MAX_TIMERS_def
  clock_simps

text \<open>Polling a timer that is not running, or not yet due, changes nothing.\<close>

lemma xktimer_handle_disabled:
  "\<not> enabled (mem w a) \<Longrightarrow> xktimer_handle c1 c2 (Some a) w = w"
  by (simp add: xktimer_handle_Some)

lemma xktimer_handle_not_due:
  "\<not> ticks (mem w a) \<le>s xktimer_clock c1 \<Longrightarrow> xktimer_handle c1 c2 (Some a) w = w"
  by (simp add: xktimer_handle_Some)

lemma poll_disabled: "\<not> enabled (mem w a) \<Longrightarrow> poll (Some a) cs w = w"
  by (induction cs) (simp_all add: xktimer_handle_disabled)

section \<open>Null timer references\<close>

text \<open>
  Claim C9. Called with a null timer reference, every operation that takes a timer
  returns at its guard: the operations returning nothing leave the whole state as it
  was, \<^verbatim>\<open>xktimer_timeout\<close>, \<^verbatim>\<open>xktimer_timeout2\<close> and \<^verbatim>\<open>xktimer_next_timeout\<close> return 0,
  \<^verbatim>\<open>xktimer_running\<close> and both registration functions return false (and register
  nothing). No result depends on what a null pointer would point to.
\<close>

theorem null_timer_is_harmless:
  "xktimer_add c None ty tmo cb w = (False, w) \<and>
   xktimer_add_dual c None tmo tmo2 cb w = (False, w) \<and>
   xktimer_update_ticks c None w = w \<and>
   xktimer_timeout None w = 0 \<and>
   xktimer_timeout2 None w = 0 \<and>
   xktimer_next_timeout c None w = 0 \<and>
   xktimer_set_timeout c None tmo w = w \<and>
   xktimer_set_timeout_dual c None tmo tmo2 w = w \<and>
   xktimer_start c None w = w \<and>
   xktimer_stop None w = w \<and>
   xktimer_running None w = False \<and>
   xktimer_handle c1 c2 None w = w"
  by (simp add: xktimer_add_def xktimer_add_dual_def xktimer_update_ticks_def
      xktimer_timeout_def xktimer_timeout2_def xktimer_next_timeout_def
      xktimer_set_timeout_def xktimer_set_timeout_dual_def xktimer_start_def
      xktimer_stop_def xktimer_running_def xktimer_handle_def xktimer_assert_def)

theorem null_timer_is_harmless_witness:
  "xktimer_add 0 None XKTIMER_PERIODIC 1000 (Some 7) startup = (False, startup) \<and>
   xktimer_add_dual 0 None 1000 300 (Some 7) startup = (False, startup) \<and>
   xktimer_timeout None startup = 0 \<and>
   xktimer_next_timeout 0 None startup = 0 \<and>
   xktimer_start 0 None startup = startup \<and>
   xktimer_running None startup = False \<and>
   xktimer_handle 0 0 None startup = startup"
  using null_timer_is_harmless [of 0 XKTIMER_PERIODIC 1000 "Some 7" startup 300 0 0]
  by simp

section \<open>Stopping a timer\<close>

text \<open>
  Claim C7. \<^verbatim>\<open>xktimer_stop\<close> clears the running flag of the timer and changes nothing
  else: its state (phase), deadline (ticks), both timeouts, type and callback stay as
  they were, and so do all other timers, the registry and the record of callbacks.
\<close>

theorem stop_clears_only_enabled:
  "xktimer_stop (Some a) w = w\<lparr>mem := (mem w)(a := (mem w a)\<lparr>enabled := False\<rparr>)\<rparr> \<and>
   enabled (mem (xktimer_stop (Some a) w) a) = False \<and>
   state (mem (xktimer_stop (Some a) w) a) = state (mem w a) \<and>
   ticks (mem (xktimer_stop (Some a) w) a) = ticks (mem w a) \<and>
   timeout (mem (xktimer_stop (Some a) w) a) = timeout (mem w a) \<and>
   timeout2 (mem (xktimer_stop (Some a) w) a) = timeout2 (mem w a) \<and>
   type (mem (xktimer_stop (Some a) w) a) = type (mem w a) \<and>
   callback (mem (xktimer_stop (Some a) w) a) = callback (mem w a) \<and>
   xktimer_ref (xktimer_stop (Some a) w) = xktimer_ref w \<and>
   xktimer_ref_idx (xktimer_stop (Some a) w) = xktimer_ref_idx w \<and>
   calls (xktimer_stop (Some a) w) = calls w"
  by (simp add: xktimer_stop_Some)

theorem stop_clears_only_enabled_witness:
  "enabled (mem (xktimer_start 5000 (Some 1) startup) 1) \<and>
   enabled (mem (xktimer_stop (Some 1) (xktimer_start 5000 (Some 1) startup)) 1) = False \<and>
   ticks (mem (xktimer_stop (Some 1) (xktimer_start 5000 (Some 1) startup)) 1) =
     ticks (mem (xktimer_start 5000 (Some 1) startup) 1)"
  using stop_clears_only_enabled [of 1 "xktimer_start 5000 (Some 1) startup"]
  by (simp add: xktimer_start_Some)

section \<open>Registration\<close>

text \<open>
  Claim C3. After a registration that returns success the timer is not running and its
  deadline is the clock at registration plus the timeout, as an exact sum (the addition
  does not wrap). The dual-state registration uses the first timeout, the phase being 0.
\<close>

theorem registration_initialises:
  "(fst (xktimer_add c timer ty tmo cb w) \<longrightarrow>
      timer \<noteq> None \<and>
      enabled (mem (snd (xktimer_add c timer ty tmo cb w)) (the timer)) = False \<and>
      ticks (mem (snd (xktimer_add c timer ty tmo cb w)) (the timer)) =
        xktimer_clock c + ucast tmo \<and>
      sint (ticks (mem (snd (xktimer_add c timer ty tmo cb w)) (the timer))) =
        sint (xktimer_clock c) + uint tmo) \<and>
   (fst (xktimer_add_dual c timer tmo tmo2 cb w) \<longrightarrow>
      timer \<noteq> None \<and>
      enabled (mem (snd (xktimer_add_dual c timer tmo tmo2 cb w)) (the timer)) = False \<and>
      state (mem (snd (xktimer_add_dual c timer tmo tmo2 cb w)) (the timer)) = 0 \<and>
      ticks (mem (snd (xktimer_add_dual c timer tmo tmo2 cb w)) (the timer)) =
        xktimer_clock c + ucast tmo \<and>
      sint (ticks (mem (snd (xktimer_add_dual c timer tmo tmo2 cb w)) (the timer))) =
        sint (xktimer_clock c) + uint tmo)"
proof (cases timer)
  case None
  then show ?thesis
    by (simp add: xktimer_add_def xktimer_add_dual_def xktimer_assert_def)
next
  case (Some a)
  then show ?thesis
    by (simp add: xktimer_add_Some xktimer_add_dual_Some sint_deadline)
qed

theorem registration_initialises_witness:
  "fst (xktimer_add 5000 (Some 1) XKTIMER_SINGLE_SHOT 1000 (Some 7) startup) \<and>
   enabled (mem (snd (xktimer_add 5000 (Some 1) XKTIMER_SINGLE_SHOT 1000 (Some 7) startup)) 1)
     = False \<and>
   ticks (mem (snd (xktimer_add 5000 (Some 1) XKTIMER_SINGLE_SHOT 1000 (Some 7) startup)) 1)
     = 1005 \<and>
   fst (xktimer_add_dual 5000 (Some 1) 700 300 (Some 7) startup) \<and>
   ticks (mem (snd (xktimer_add_dual 5000 (Some 1) 700 300 (Some 7) startup)) 1) = 705"
proof -
  have ok: "fst (xktimer_add 5000 (Some 1) XKTIMER_SINGLE_SHOT 1000 (Some 7) startup)"
    and ok2: "fst (xktimer_add_dual 5000 (Some 1) 700 300 (Some 7) startup)"
    by (simp_all add: xktimer_add_Some xktimer_add_dual_Some startup_def
        XKTIMER_MAX_TIMERS_def word_sle_eq)
  have now: "xktimer_clock 5000 = 5"
    by (simp add: xktimer_clock_def tick_divisor) (simp add: long_div_def signed_divide_int_def)
  from ok ok2 now
    registration_initialises [of 5000 "Some 1" XKTIMER_SINGLE_SHOT 1000 "Some 7" startup 300]
    registration_initialises [of 5000 "Some 1" XKTIMER_SINGLE_SHOT 700 "Some 7" startup 300]
  show ?thesis by simp
qed

section \<open>Expiry\<close>

text \<open>
  Claim C5. When \<^verbatim>\<open>xktimer_handle\<close> finds an enabled timer whose deadline has passed,
  however long ago, it toggles the phase of a dual-state timer, recomputes the deadline
  from the phase it has now, and then invokes the callback, if there is one, exactly
  once with that phase: the callee already finds the new deadline in the timer. No call
  of \<^verbatim>\<open>xktimer_handle\<close>, whatever the timer and the clock, makes more than one callback
  invocation.
\<close>

theorem expiry_recomputes_then_fires_once:
  fixes w v :: world and a :: addr and c1 c2 c3 c4 :: clock_t
  assumes "enabled (mem w a)" and "ticks (mem w a) \<le>s xktimer_clock c1"
  defines "w' \<equiv> xktimer_handle c1 c2 (Some a) w"
  shows "state (mem w' a) =
           (if type (mem w a) = XKTIMER_DUAL_STATE then (if state (mem w a) = 0 then 1 else 0)
            else state (mem w a)) \<and>
         ticks (mem w' a) = xktimer_clock c2 +
           ucast (if state (mem w' a) = 0 then timeout (mem w a) else timeout2 (mem w a)) \<and>
         calls w' = calls w @
           (case callback (mem w a) of None \<Rightarrow> []
            | Some f \<Rightarrow> [Call f (ucast (state (mem w' a))) (mem w' a)]) \<and>
         length (calls (xktimer_handle c3 c4 timer v)) \<le> Suc (length (calls v))"
proof -
  have "length (calls (xktimer_handle c3 c4 timer v)) \<le> Suc (length (calls v))"
  proof (cases timer)
    case None
    then show ?thesis by (simp add: xktimer_handle_def xktimer_assert_def)
  next
    case (Some b)
    then show ?thesis by (simp add: xktimer_handle_Some split: option.split)
  qed
  with assms(1,2) show ?thesis
    unfolding w'_def by (simp add: xktimer_handle_Some expired_fields split: option.split)
qed

theorem expiry_recomputes_then_fires_once_witness:
  "enabled (mem (xktimer_start 0 (Some 1)
      (snd (xktimer_add_dual 0 (Some 1) 700 300 (Some 7) startup))) 1) \<and>
   ticks (mem (xktimer_start 0 (Some 1)
      (snd (xktimer_add_dual 0 (Some 1) 700 300 (Some 7) startup))) 1)
     \<le>s xktimer_clock 5000000 \<and>
   calls (xktimer_handle 5000000 5000000 (Some 1) (xktimer_start 0 (Some 1)
      (snd (xktimer_add_dual 0 (Some 1) 700 300 (Some 7) startup)))) =
     [Call 7 1 \<lparr>type = 3, enabled = True, state = 1, timeout = 700, timeout2 = 300,
        ticks = 5300, callback = Some 7\<rparr>]"
proof -
  let ?w = "xktimer_start 0 (Some 1) (snd (xktimer_add_dual 0 (Some 1) 700 300 (Some 7) startup))"
  have en: "enabled (mem ?w 1)" and due: "ticks (mem ?w 1) \<le>s xktimer_clock 5000000"
    by (simp_all add: run_simps)
  have "mem (xktimer_handle 5000000 5000000 (Some 1) ?w) 1 =
        \<lparr>type = 3, enabled = True, state = 1, timeout = 700, timeout2 = 300,
          ticks = 5300, callback = Some 7\<rparr>"
    by (simp add: run_simps)
  moreover have "callback (mem ?w 1) = Some 7" "calls ?w = []"
    by (simp_all add: run_simps)
  ultimately show ?thesis
    using en due expiry_recomputes_then_fires_once [OF en due, of 5000000 0 0 None startup]
    by simp
qed

section \<open>Single-shot timers\<close>

text \<open>
  Claim C2. A single-shot timer with timeout \<open>T\<close> is started when the millisecond clock
  reads \<open>t0\<close>. A check that reads the clock before \<open>t0 + T\<close> changes nothing. A check that
  reads \<open>t0 + T\<close> or more invokes the callback (if the timer has one) once, with
  argument 0, and leaves the timer disabled; after it every further check changes
  nothing, until \<^verbatim>\<open>xktimer_start\<close> enables the timer again. So over any sequence of
  polls after the start the callback is invoked once if some poll read \<open>t0 + T\<close> or
  more, and not at all otherwise.
\<close>

theorem single_shot_fires_once:
  fixes w :: world and a :: addr and c0 c1 c2 c5 :: clock_t
  assumes "type (mem w a) = XKTIMER_SINGLE_SHOT"
  defines "w1 \<equiv> xktimer_start c0 (Some a) w"
    and "due \<equiv> sint (xktimer_clock c0) + uint (timeout (mem w a))"
  defines "w2 \<equiv> xktimer_handle c1 c2 (Some a) w1"
  shows "(sint (xktimer_clock c1) < due \<longrightarrow> w2 = w1) \<and>
         (due \<le> sint (xktimer_clock c1) \<longrightarrow>
            calls w2 = calls w1 @
              (case callback (mem w a) of None \<Rightarrow> [] | Some f \<Rightarrow> [Call f 0 (mem w2 a)]) \<and>
            enabled (mem w2 a) = False \<and>
            (\<forall>cs. poll (Some a) cs w2 = w2) \<and>
            enabled (mem (xktimer_start c5 (Some a) w2) a)) \<and>
         (\<forall>cs. length (calls (poll (Some a) cs w1)) = length (calls w1) +
            (if (\<exists>cc \<in> set cs. due \<le> sint (xktimer_clock (fst cc))) \<and>
                callback (mem w a) \<noteq> None then 1 else 0)) \<and>
         (\<forall>cs. \<forall>k \<in> set (drop (length (calls w1)) (calls (poll (Some a) cs w1))). arg k = 0)"
proof -
  have t1: "mem w1 a = (mem w a)\<lparr>enabled := True, state := 0,
              ticks := xktimer_clock c0 + ucast (timeout (mem w a))\<rparr>"
    by (simp add: w1_def xktimer_start_Some)
  have due_iff: "ticks (mem w1 a) \<le>s xktimer_clock c \<longleftrightarrow> due \<le> sint (xktimer_clock c)" for c
    by (simp add: t1 due_def deadline_passed_iff)
  have early: "xktimer_handle c d (Some a) w1 = w1" if "sint (xktimer_clock c) < due" for c d
    using that by (intro xktimer_handle_not_due) (simp add: due_iff)
  have late: "calls (xktimer_handle c d (Some a) w1) = calls w1 @
        (case callback (mem w a) of None \<Rightarrow> []
         | Some f \<Rightarrow> [Call f 0 (mem (xktimer_handle c d (Some a) w1) a)]) \<and>
      enabled (mem (xktimer_handle c d (Some a) w1) a) = False"
    if "due \<le> sint (xktimer_clock c)" for c d
  proof -
    have "ticks (mem w1 a) \<le>s xktimer_clock c" using that by (simp add: due_iff)
    then show ?thesis
      using assms(1)
      by (simp add: xktimer_handle_Some t1 expired_fields XKTIMER_SINGLE_SHOT_def
          XKTIMER_DUAL_STATE_def split: option.split)
  qed
  have run: "length (calls (poll (Some a) cs w1)) = length (calls w1) +
      (if (\<exists>cc \<in> set cs. due \<le> sint (xktimer_clock (fst cc))) \<and>
          callback (mem w a) \<noteq> None then 1 else 0) \<and>
      (\<forall>k \<in> set (drop (length (calls w1)) (calls (poll (Some a) cs w1))). arg k = 0)" for cs
  proof (induction cs)
    case Nil
    show ?case by simp
  next
    case (Cons cc cs)
    show ?case
    proof (cases "due \<le> sint (xktimer_clock (fst cc))")
      case True
      let ?v = "xktimer_handle (fst cc) (snd cc) (Some a) w1"
      have "poll (Some a) (cc # cs) w1 = ?v"
        using late [OF True, of "snd cc"] by (simp add: poll_disabled)
      then show ?thesis
        using late [OF True, of "snd cc"] True by (auto split: option.split)
    next
      case False
      then have "xktimer_handle (fst cc) (snd cc) (Some a) w1 = w1"
        by (intro early) simp
      then show ?thesis using Cons.IH False by simp
    qed
  qed
  have restart: "enabled (mem (xktimer_start c5 (Some a) w2) a)"
    by (simp add: xktimer_start_Some)
  show ?thesis
    using early [of c1 c2] late [of c1 c2] run restart
    unfolding w2_def by (simp add: poll_disabled)
qed

text \<open>The example of the specification: 1000 ms, started at 0, polled at 500, 1000 and 2500.\<close>

theorem single_shot_fires_once_witness:
  "type (mem (snd (xktimer_add 0 (Some 1) XKTIMER_SINGLE_SHOT 1000 (Some 7) startup)) 1) =
     XKTIMER_SINGLE_SHOT \<and>
   calls (xktimer_handle 1000000 1000000 (Some 1) (xktimer_start 0 (Some 1)
     (snd (xktimer_add 0 (Some 1) XKTIMER_SINGLE_SHOT 1000 (Some 7) startup)))) =
     [Call 7 0 \<lparr>type = 1, enabled = False, state = 0, timeout = 1000, timeout2 = 0,
        ticks = 2000, callback = Some 7\<rparr>] \<and>
   length (calls (poll (Some 1) [(500000, 500000), (1000000, 1000000), (2500000, 2500000)]
     (xktimer_start 0 (Some 1)
       (snd (xktimer_add 0 (Some 1) XKTIMER_SINGLE_SHOT 1000 (Some 7) startup))))) = 1"
proof -
  define w where "w = snd (xktimer_add 0 (Some 1) XKTIMER_SINGLE_SHOT 1000 (Some 7) startup)"
  define cs :: "(clock_t \<times> clock_t) list"
    where "cs = [(500000, 500000), (1000000, 1000000), (2500000, 2500000)]"
  have ty: "type (mem w 1) = XKTIMER_SINGLE_SHOT"
    by (simp add: w_def run_simps)
  note th = single_shot_fires_once [OF ty, where ?c0.0 = 0 and ?c1.0 = 1000000
      and ?c2.0 = 1000000 and ?c5.0 = 0]
  have due: "sint (xktimer_clock 0) + uint (timeout (mem w 1)) \<le> sint (xktimer_clock 1000000)"
    by (simp add: w_def run_simps)
  from th due have fire:
    "calls (xktimer_handle 1000000 1000000 (Some 1) (xktimer_start 0 (Some 1) w)) =
     calls (xktimer_start 0 (Some 1) w) @
       (case callback (mem w 1) of None \<Rightarrow> []
        | Some f \<Rightarrow> [Call f 0 (mem (xktimer_handle 1000000 1000000 (Some 1)
                                   (xktimer_start 0 (Some 1) w)) 1)])"
    by blast
  from th have len:
    "length (calls (poll (Some 1) cs (xktimer_start 0 (Some 1) w))) =
     length (calls (xktimer_start 0 (Some 1) w)) +
       (if (\<exists>cc \<in> set cs. sint (xktimer_clock 0) + uint (timeout (mem w 1))
              \<le> sint (xktimer_clock (fst cc))) \<and> callback (mem w 1) \<noteq> None
        then 1 else 0)"
    by blast
  from ty fire len show ?thesis
    unfolding w_def cs_def by (simp add: run_simps)
qed

section \<open>Timer types the module does not know\<close>

text \<open>
  Claim C10. \<^verbatim>\<open>xktimer_add\<close> stores the type it is given, also when it is none of the
  three the header defines; it does not replace it by single shot. On expiry
  \<^verbatim>\<open>xktimer_handle\<close> does with such a timer what it does with a periodic one: only the
  deadline is recomputed, the callback is invoked, and the timer stays enabled with its
  type, so this repeats at every later poll that finds the deadline passed.
\<close>

theorem unknown_type_runs_as_periodic:
  assumes "ty \<noteq> XKTIMER_SINGLE_SHOT" and "ty \<noteq> XKTIMER_PERIODIC" and "ty \<noteq> XKTIMER_DUAL_STATE"
  shows "(fst (xktimer_add c (Some a) ty tmo cb v) \<longrightarrow>
            type (mem (snd (xktimer_add c (Some a) ty tmo cb v)) a) = ty) \<and>
         ((type (mem w a) = ty \<or> type (mem w a) = XKTIMER_PERIODIC) \<and>
            enabled (mem w a) \<and> ticks (mem w a) \<le>s xktimer_clock c1 \<longrightarrow>
            xktimer_handle c1 c2 (Some a) w =
              w\<lparr>mem := (mem w)(a := (mem w a)\<lparr>ticks := xktimer_clock c2 +
                     ucast (if state (mem w a) = 0 then timeout (mem w a)
                            else timeout2 (mem w a))\<rparr>),
                calls := calls w @
                  (case callback (mem w a) of None \<Rightarrow> []
                   | Some f \<Rightarrow> [Call f (ucast (state (mem w a)))
                       ((mem w a)\<lparr>ticks := xktimer_clock c2 +
                          ucast (if state (mem w a) = 0 then timeout (mem w a)
                                 else timeout2 (mem w a))\<rparr>)])\<rparr>) \<and>
         (type (mem w a) = ty \<and> enabled (mem w a) \<longrightarrow>
            (\<forall>cs. type (mem (poll (Some a) cs w) a) = ty \<and>
                  enabled (mem (poll (Some a) cs w) a)))"
proof -
  have stored: "fst (xktimer_add c (Some a) ty tmo cb v) \<longrightarrow>
      type (mem (snd (xktimer_add c (Some a) ty tmo cb v)) a) = ty"
    by (simp add: xktimer_add_Some)
  have step: "xktimer_handle c1 c2 (Some a) w =
      w\<lparr>mem := (mem w)(a := (mem w a)\<lparr>ticks := xktimer_clock c2 +
             ucast (if state (mem w a) = 0 then timeout (mem w a) else timeout2 (mem w a))\<rparr>),
        calls := calls w @
          (case callback (mem w a) of None \<Rightarrow> []
           | Some f \<Rightarrow> [Call f (ucast (state (mem w a)))
               ((mem w a)\<lparr>ticks := xktimer_clock c2 +
                  ucast (if state (mem w a) = 0 then timeout (mem w a)
                         else timeout2 (mem w a))\<rparr>)])\<rparr>"
    if "type (mem w a) = ty \<or> type (mem w a) = XKTIMER_PERIODIC" "enabled (mem w a)"
      "ticks (mem w a) \<le>s xktimer_clock c1"
  proof -
    have "expired c2 (mem w a) = (mem w a)\<lparr>ticks := xktimer_clock c2 +
        ucast (if state (mem w a) = 0 then timeout (mem w a) else timeout2 (mem w a))\<rparr>"
      using that(1) assms
      by (auto simp: expired_def Let_def XKTIMER_SINGLE_SHOT_def XKTIMER_PERIODIC_def
          XKTIMER_DUAL_STATE_def)
    with that(2,3) show ?thesis
      by (simp add: xktimer_handle_Some split: option.split)
  qed
  have keeps: "type (mem (poll (Some a) cs u) a) = ty \<and> enabled (mem (poll (Some a) cs u) a)"
    if "type (mem u a) = ty" "enabled (mem u a)" for cs u
    using that
  proof (induction cs arbitrary: u)
    case Nil
    then show ?case by simp
  next
    case (Cons cc cs)
    have "type (mem (xktimer_handle (fst cc) (snd cc) (Some a) u) a) = ty"
      and "enabled (mem (xktimer_handle (fst cc) (snd cc) (Some a) u) a)"
      using Cons.prems assms(1) by (simp_all add: xktimer_handle_Some expired_fields)
    then show ?case using Cons.IH by simp
  qed
  from stored step keeps show ?thesis by blast
qed

theorem unknown_type_runs_as_periodic_witness:
  "(9 :: 8 word) \<noteq> XKTIMER_SINGLE_SHOT \<and> (9 :: 8 word) \<noteq> XKTIMER_PERIODIC \<and>
   (9 :: 8 word) \<noteq> XKTIMER_DUAL_STATE \<and>
   fst (xktimer_add 0 (Some 1) 9 1000 (Some 7) startup) \<and>
   type (mem (snd (xktimer_add 0 (Some 1) 9 1000 (Some 7) startup)) 1) = 9 \<and>
   type (mem (poll (Some 1) [(1000000, 1000000), (2000000, 2000000)]
     (xktimer_start 0 (Some 1) (snd (xktimer_add 0 (Some 1) 9 1000 (Some 7) startup)))) 1) = 9 \<and>
   enabled (mem (poll (Some 1) [(1000000, 1000000), (2000000, 2000000)]
     (xktimer_start 0 (Some 1) (snd (xktimer_add 0 (Some 1) 9 1000 (Some 7) startup)))) 1) \<and>
   map arg (calls (poll (Some 1) [(1000000, 1000000), (2000000, 2000000)]
     (xktimer_start 0 (Some 1) (snd (xktimer_add 0 (Some 1) 9 1000 (Some 7) startup))))) = [0, 0]"
proof -
  define w where "w = xktimer_start 0 (Some 1) (snd (xktimer_add 0 (Some 1) 9 1000 (Some 7) startup))"
  have ne: "(9 :: 8 word) \<noteq> XKTIMER_SINGLE_SHOT" "(9 :: 8 word) \<noteq> XKTIMER_PERIODIC"
    "(9 :: 8 word) \<noteq> XKTIMER_DUAL_STATE"
    by (simp_all add: XKTIMER_SINGLE_SHOT_def XKTIMER_PERIODIC_def XKTIMER_DUAL_STATE_def)
  note th = unknown_type_runs_as_periodic [OF ne, where a = 1 and w = w and c = 0
      and tmo = 1000 and cb = "Some 7" and v = startup]
  have ok: "fst (xktimer_add 0 (Some 1) 9 1000 (Some 7) startup)"
    and run: "type (mem w 1) = 9 \<and> enabled (mem w 1)"
    by (simp_all add: w_def run_simps)
  from th ok have stored: "type (mem (snd (xktimer_add 0 (Some 1) 9 1000 (Some 7) startup)) 1) = 9"
    by blast
  from th run have keeps:
    "type (mem (poll (Some 1) [(1000000, 1000000), (2000000, 2000000)] w) 1) = 9 \<and>
     enabled (mem (poll (Some 1) [(1000000, 1000000), (2000000, 2000000)] w) 1)"
    by blast
  have "map arg (calls (poll (Some 1) [(1000000, 1000000), (2000000, 2000000)] w)) = [0, 0]"
    by (simp add: w_def run_simps)
  with ne ok stored keeps show ?thesis unfolding w_def by blast
qed

section \<open>Dual-state timers\<close>

text \<open>
  Claim C1. The header documents the callback argument of a dual-state timer as the
  timeout that was completed: 0 after the first timeout, 1 after the second, and so on
  in turn. \<^verbatim>\<open>xktimer_handle\<close> toggles the phase before it invokes the callback, so the
  callback receives the phase that begins, not the one that ended. A timer registered
  with 700 and 300 and started at 0 fires at 700, 1000 and 1700, as the claim says, but
  the arguments are 1, 0, 1.
\<close>

theorem dual_state_phases_are_1_0_1:
  "map arg (calls (poll (Some 1)
     [(699999, 699999), (700000, 700000), (999999, 999999), (1000000, 1000000),
      (1699999, 1699999), (1700000, 1700000)]
     (xktimer_start 0 (Some 1) (snd (xktimer_add_dual 0 (Some 1) 700 300 (Some 7) startup)))))
   = [1, 0, 1] \<and>
   map (\<lambda>k. ticks (seen k)) (calls (poll (Some 1)
     [(699999, 699999), (700000, 700000), (999999, 999999), (1000000, 1000000),
      (1699999, 1699999), (1700000, 1700000)]
     (xktimer_start 0 (Some 1) (snd (xktimer_add_dual 0 (Some 1) 700 300 (Some 7) startup)))))
   = [1000, 1700, 2000]"
  by (simp add: run_simps)

theorem dual_state_phases_are_1_0_1_witness:
  "map arg (calls (poll (Some 1)
     [(699999, 699999), (700000, 700000), (999999, 999999), (1000000, 1000000),
      (1699999, 1699999), (1700000, 1700000)]
     (xktimer_start 0 (Some 1) (snd (xktimer_add_dual 0 (Some 1) 700 300 (Some 7) startup)))))
   \<noteq> [0, 1, 0]"
  using dual_state_phases_are_1_0_1 by simp

section \<open>The phase of a timer\<close>

text \<open>The operations on any pointer, null or not, seen from one timer's \<^verbatim>\<open>state\<close> field.\<close>

lemma state_after_exec:
  "state (mem (exec x w) a) = state (mem w a) \<or> state (mem (exec x w) a) = 0 \<or>
   (type (mem (exec x w) a) = XKTIMER_DUAL_STATE \<and> type (mem w a) = XKTIMER_DUAL_STATE \<and>
    state (mem (exec x w) a) = (if state (mem w a) = 0 then 1 else 0))"
proof (cases x)
  case (Add c timer ty tmo cb)
  then show ?thesis by (cases timer) (simp_all add: xktimer_add_Some xktimer_None)
next
  case (AddDual c timer tmo tmo2 cb)
  then show ?thesis by (cases timer) (simp_all add: xktimer_add_dual_Some xktimer_None)
next
  case (SetTimeout c timer tmo)
  then show ?thesis by (cases timer) (simp_all add: xktimer_set_timeout_Some xktimer_None)
next
  case (SetTimeoutDual c timer tmo tmo2)
  then show ?thesis by (cases timer) (simp_all add: xktimer_set_timeout_dual_Some xktimer_None)
next
  case (Start c timer)
  then show ?thesis by (cases timer) (simp_all add: xktimer_start_Some xktimer_None)
next
  case (Stop timer)
  then show ?thesis by (cases timer) (simp_all add: xktimer_stop_Some xktimer_None)
next
  case (Handle c1 c2 timer)
  then show ?thesis
    by (cases timer) (simp_all add: xktimer_handle_Some expired_fields xktimer_None)
qed

lemma type_after_exec:
  "type (mem (exec x w) a) = type (mem w a) \<or> state (mem (exec x w) a) = 0"
proof (cases x)
  case (Add c timer ty tmo cb)
  then show ?thesis by (cases timer) (simp_all add: xktimer_add_Some xktimer_None)
next
  case (AddDual c timer tmo tmo2 cb)
  then show ?thesis by (cases timer) (simp_all add: xktimer_add_dual_Some xktimer_None)
next
  case (SetTimeout c timer tmo)
  then show ?thesis by (cases timer) (simp_all add: xktimer_set_timeout_Some xktimer_None)
next
  case (SetTimeoutDual c timer tmo tmo2)
  then show ?thesis by (cases timer) (simp_all add: xktimer_set_timeout_dual_Some xktimer_None)
next
  case (Start c timer)
  then show ?thesis by (cases timer) (simp_all add: xktimer_start_Some xktimer_None)
next
  case (Stop timer)
  then show ?thesis by (cases timer) (simp_all add: xktimer_stop_Some xktimer_None)
next
  case (Handle c1 c2 timer)
  then show ?thesis
    by (cases timer) (simp_all add: xktimer_handle_Some expired_fields xktimer_None)
qed

lemma phase_kept_by_exec:
  assumes "type (mem w a) \<noteq> XKTIMER_DUAL_STATE \<longrightarrow> state (mem w a) = 0"
    and "state (mem w a) = 0 \<or> state (mem w a) = 1"
  shows "(type (mem (exec x w) a) \<noteq> XKTIMER_DUAL_STATE \<longrightarrow> state (mem (exec x w) a) = 0) \<and>
         (state (mem (exec x w) a) = 0 \<or> state (mem (exec x w) a) = 1)"
  using assms state_after_exec [of x w a] type_after_exec [of x w a]
  by (auto split: if_splits)

lemma phase_kept_by_run:
  assumes "type (mem w a) \<noteq> XKTIMER_DUAL_STATE \<longrightarrow> state (mem w a) = 0"
    and "state (mem w a) = 0 \<or> state (mem w a) = 1"
  shows "(type (mem (run xs w) a) \<noteq> XKTIMER_DUAL_STATE \<longrightarrow> state (mem (run xs w) a) = 0) \<and>
         (state (mem (run xs w) a) = 0 \<or> state (mem (run xs w) a) = 1)"
  using assms
proof (induction xs arbitrary: w)
  case Nil
  then show ?case by simp
next
  case (Cons x xs)
  have "(type (mem (exec x w) a) \<noteq> XKTIMER_DUAL_STATE \<longrightarrow> state (mem (exec x w) a) = 0) \<and>
        (state (mem (exec x w) a) = 0 \<or> state (mem (exec x w) a) = 1)"
    using Cons.prems by (rule phase_kept_by_exec)
  then show ?case using Cons.IH [of "exec x w"] by simp
qed

text \<open>
  Claim C8. A registration leaves the timer's \<^verbatim>\<open>state\<close> at 0. From then on, whatever
  sequence of module operations the program runs on this or any other timer, the
  \<^verbatim>\<open>state\<close> of a timer that is not dual-state stays 0 and the \<^verbatim>\<open>state\<close> of a dual-state
  timer stays 0 or 1. \<^verbatim>\<open>xktimer_handle\<close> changes the \<^verbatim>\<open>state\<close> only of a dual-state timer it
  finds enabled and due, from 0 to 1 and from 1 to 0; \<^verbatim>\<open>xktimer_start\<close> and
  \<^verbatim>\<open>xktimer_set_timeout_dual\<close> set it to 0.
\<close>

theorem state_is_pinned_or_alternates:
  assumes "type (mem w a) \<noteq> XKTIMER_DUAL_STATE \<longrightarrow> state (mem w a) = 0"
    and "state (mem w a) = 0 \<or> state (mem w a) = 1"
  shows "(type (mem (run xs w) a) \<noteq> XKTIMER_DUAL_STATE \<longrightarrow> state (mem (run xs w) a) = 0) \<and>
         (state (mem (run xs w) a) = 0 \<or> state (mem (run xs w) a) = 1) \<and>
         state (mem (xktimer_handle c1 c2 (Some a) w) a) =
           (if type (mem w a) = XKTIMER_DUAL_STATE \<and> enabled (mem w a) \<and>
               ticks (mem w a) \<le>s xktimer_clock c1
            then (if state (mem w a) = 0 then 1 else 0) else state (mem w a)) \<and>
         state (mem (xktimer_start c (Some a) w) a) = 0 \<and>
         state (mem (xktimer_set_timeout_dual c (Some a) tmo tmo2 w) a) = 0 \<and>
         state (mem (xktimer_stop (Some a) w) a) = state (mem w a) \<and>
         state (mem (xktimer_set_timeout c (Some a) tmo w) a) = state (mem w a) \<and>
         (fst (xktimer_add c (Some a) ty tmo cb v) \<longrightarrow>
            state (mem (snd (xktimer_add c (Some a) ty tmo cb v)) a) = 0) \<and>
         (fst (xktimer_add_dual c (Some a) tmo tmo2 cb v) \<longrightarrow>
            state (mem (snd (xktimer_add_dual c (Some a) tmo tmo2 cb v)) a) = 0)"
proof -
  have ops: "state (mem (xktimer_handle c1 c2 (Some a) w) a) =
           (if type (mem w a) = XKTIMER_DUAL_STATE \<and> enabled (mem w a) \<and>
               ticks (mem w a) \<le>s xktimer_clock c1
            then (if state (mem w a) = 0 then 1 else 0) else state (mem w a))"
    "state (mem (xktimer_start c (Some a) w) a) = 0"
    "state (mem (xktimer_set_timeout_dual c (Some a) tmo tmo2 w) a) = 0"
    "state (mem (xktimer_stop (Some a) w) a) = state (mem w a)"
    "state (mem (xktimer_set_timeout c (Some a) tmo w) a) = state (mem w a)"
    "fst (xktimer_add c (Some a) ty tmo cb v) \<longrightarrow>
       state (mem (snd (xktimer_add c (Some a) ty tmo cb v)) a) = 0"
    "fst (xktimer_add_dual c (Some a) tmo tmo2 cb v) \<longrightarrow>
       state (mem (snd (xktimer_add_dual c (Some a) tmo tmo2 cb v)) a) = 0"
    by (simp_all add: xktimer_handle_Some expired_fields xktimer_start_Some
        xktimer_set_timeout_dual_Some xktimer_stop_Some xktimer_set_timeout_Some
        xktimer_add_Some xktimer_add_dual_Some)
  from phase_kept_by_run [OF assms, of xs] ops show ?thesis by blast
qed

theorem state_is_pinned_or_alternates_witness:
  "type (mem (snd (xktimer_add_dual 0 (Some 1) 700 300 (Some 7) startup)) 1) =
     XKTIMER_DUAL_STATE \<and>
   state (mem (snd (xktimer_add_dual 0 (Some 1) 700 300 (Some 7) startup)) 1) = 0 \<and>
   (state (mem (run [Start 0 (Some 1), Handle 700000 700000 (Some 1)]
      (snd (xktimer_add_dual 0 (Some 1) 700 300 (Some 7) startup))) 1) = 0 \<or>
    state (mem (run [Start 0 (Some 1), Handle 700000 700000 (Some 1)]
      (snd (xktimer_add_dual 0 (Some 1) 700 300 (Some 7) startup))) 1) = 1) \<and>
   state (mem (run [Start 0 (Some 1), Handle 700000 700000 (Some 1)]
      (snd (xktimer_add_dual 0 (Some 1) 700 300 (Some 7) startup))) 1) = 1 \<and>
   state (mem (run [Start 0 (Some 1), Handle 700000 700000 (Some 1),
                    Handle 1000000 1000000 (Some 1)]
      (snd (xktimer_add_dual 0 (Some 1) 700 300 (Some 7) startup))) 1) = 0"
proof -
  define w where "w = snd (xktimer_add_dual 0 (Some 1) 700 300 (Some 7) startup)"
  have ty: "type (mem w 1) = XKTIMER_DUAL_STATE" and st: "state (mem w 1) = 0"
    by (simp_all add: w_def run_simps)
  have a1: "type (mem w 1) \<noteq> XKTIMER_DUAL_STATE \<longrightarrow> state (mem w 1) = 0"
    and a2: "state (mem w 1) = 0 \<or> state (mem w 1) = 1"
    using st by simp_all
  from state_is_pinned_or_alternates [OF a1 a2,
      where xs = "[Start 0 (Some 1), Handle 700000 700000 (Some 1)]"]
  have "state (mem (run [Start 0 (Some 1), Handle 700000 700000 (Some 1)] w) 1) = 0 \<or>
        state (mem (run [Start 0 (Some 1), Handle 700000 700000 (Some 1)] w) 1) = 1"
    by blast
  moreover have
    "state (mem (run [Start 0 (Some 1), Handle 700000 700000 (Some 1)] w) 1) = 1"
    "state (mem (run [Start 0 (Some 1), Handle 700000 700000 (Some 1),
                      Handle 1000000 1000000 (Some 1)] w) 1) = 0"
    by (simp_all add: w_def run_simps)
  ultimately show ?thesis using ty st unfolding w_def by blast
qed

section \<open>The capacity of the registry\<close>

lemma sint_idx_succ:
  fixes i :: "32 word"
  assumes "0 \<le> sint i" "sint i < 30"
  shows "sint (i + 1) = sint i + 1"
proof -
  have "sint (i + 1) = signed_take_bit 31 (sint i + 1)"
    by (simp add: sint_word_ariths)
  also have "\<dots> = sint i + 1"
  proof (rule signed_take_bit_int_eq_self)
    have "- 2147483648 \<le> sint i + 1" "sint i + 1 < 2147483648" using assms by linarith+
    then show "- (2 ^ 31) \<le> sint i + 1" "sint i + 1 < 2 ^ 31" by simp_all
  qed
  finally show ?thesis .
qed

lemma registers_room: "registers x w \<Longrightarrow> sint (xktimer_ref_idx w) < 30"
proof (cases x)
  case (Add c timer ty tmo cb)
  assume "registers x w"
  with Add show ?thesis
    by (cases timer)
      (simp_all add: xktimer_add_Some xktimer_None XKTIMER_MAX_TIMERS_def word_sle_eq
        split: if_splits)
next
  case (AddDual c timer tmo tmo2 cb)
  assume "registers x w"
  with AddDual show ?thesis
    by (cases timer)
      (simp_all add: xktimer_add_dual_Some xktimer_None XKTIMER_MAX_TIMERS_def word_sle_eq
        split: if_splits)
qed simp_all

lemma idx_after_exec:
  "xktimer_ref_idx (exec x w) =
     (if registers x w then xktimer_ref_idx w + 1 else xktimer_ref_idx w)"
proof (cases x)
  case (Add c timer ty tmo cb)
  then show ?thesis by (cases timer) (simp_all add: xktimer_add_Some xktimer_None)
next
  case (AddDual c timer tmo tmo2 cb)
  then show ?thesis by (cases timer) (simp_all add: xktimer_add_dual_Some xktimer_None)
next
  case (SetTimeout c timer tmo)
  then show ?thesis by (cases timer) (simp_all add: xktimer_set_timeout_Some xktimer_None)
next
  case (SetTimeoutDual c timer tmo tmo2)
  then show ?thesis by (cases timer) (simp_all add: xktimer_set_timeout_dual_Some xktimer_None)
next
  case (Start c timer)
  then show ?thesis by (cases timer) (simp_all add: xktimer_start_Some xktimer_None)
next
  case (Stop timer)
  then show ?thesis by (cases timer) (simp_all add: xktimer_stop_Some xktimer_None)
next
  case (Handle c1 c2 timer)
  then show ?thesis by (cases timer) (simp_all add: xktimer_handle_Some xktimer_None)
qed

lemma registrations_fill_the_index:
  assumes "sint (xktimer_ref_idx w) = int n" and "n \<le> 30"
  shows "sint (xktimer_ref_idx (run xs w)) = int (n + registrations xs w) \<and>
         n + registrations xs w \<le> 30"
  using assms
proof (induction xs arbitrary: w n)
  case Nil
  then show ?case by simp
next
  case (Cons x xs)
  show ?case
  proof (cases "registers x w")
    case True
    then have room: "sint (xktimer_ref_idx w) < 30" by (rule registers_room)
    then have "sint (xktimer_ref_idx (exec x w)) = int (Suc n)"
      using True Cons.prems sint_idx_succ [of "xktimer_ref_idx w"]
      by (simp add: idx_after_exec)
    moreover have "Suc n \<le> 30" using room Cons.prems by simp
    ultimately show ?thesis using Cons.IH [of "exec x w" "Suc n"] True by simp
  next
    case False
    then have "sint (xktimer_ref_idx (exec x w)) = int n"
      using Cons.prems by (simp add: idx_after_exec)
    then show ?thesis using Cons.IH [of "exec x w" n] Cons.prems False by simp
  qed
qed


text \<open>
  Claim C4. From \<^verbatim>\<open>xktimer_init\<close> on, whatever calls the program makes, at most
  \<^verbatim>\<open>XKTIMER_MAX_TIMERS\<close> registrations return true. Once that many have, every further
  registration, of either kind and of any timer, returns false and leaves the whole
  state as it was: the registry, its index, and the fields of every timer, the one
  passed in included.
\<close>

theorem registry_full_rejects:
  "registrations xs (xktimer_init w) \<le> unat XKTIMER_MAX_TIMERS \<and>
   (registrations xs (xktimer_init w) = unat XKTIMER_MAX_TIMERS \<longrightarrow>
      xktimer_add c timer ty tmo cb (run xs (xktimer_init w)) =
        (False, run xs (xktimer_init w)) \<and>
      xktimer_add_dual c timer tmo tmo2 cb (run xs (xktimer_init w)) =
        (False, run xs (xktimer_init w)))"
proof -
  have start: "sint (xktimer_ref_idx (xktimer_init w)) = int 0"
    by (simp add: xktimer_init_def)
  have fill: "sint (xktimer_ref_idx (run xs (xktimer_init w))) =
        int (registrations xs (xktimer_init w))"
    and le: "registrations xs (xktimer_init w) \<le> 30"
    using registrations_fill_the_index [OF start, of xs] by simp_all
  have full: "XKTIMER_MAX_TIMERS \<le>s xktimer_ref_idx (run xs (xktimer_init w))"
    if "registrations xs (xktimer_init w) = 30"
    using that fill by (simp add: XKTIMER_MAX_TIMERS_def word_sle_eq)
  have "xktimer_add c timer ty tmo cb v = (False, v) \<and>
        xktimer_add_dual c timer tmo tmo2 cb v = (False, v)"
    if "XKTIMER_MAX_TIMERS \<le>s xktimer_ref_idx v" for v
    using that by (simp add: xktimer_add_def xktimer_add_dual_def)
  with full le show ?thesis by (simp add: XKTIMER_MAX_TIMERS_def)
qed

theorem registry_full_rejects_witness:
  "registrations (replicate 30 (Add 0 (Some 1) XKTIMER_PERIODIC 1000 None))
     (xktimer_init startup) = unat XKTIMER_MAX_TIMERS \<and>
   fst (xktimer_add 0 (Some 2) XKTIMER_PERIODIC 1000 None
     (run (replicate 30 (Add 0 (Some 1) XKTIMER_PERIODIC 1000 None)) (xktimer_init startup)))
     = False \<and>
   mem (snd (xktimer_add 0 (Some 2) XKTIMER_PERIODIC 1000 None
     (run (replicate 30 (Add 0 (Some 1) XKTIMER_PERIODIC 1000 None)) (xktimer_init startup)))) 2
     = mem (run (replicate 30 (Add 0 (Some 1) XKTIMER_PERIODIC 1000 None))
         (xktimer_init startup)) 2"
proof -
  have n: "registrations (replicate 30 (Add 0 (Some 1) XKTIMER_PERIODIC 1000 None))
     (xktimer_init startup) = 30"
    by code_simp
  have m: "unat XKTIMER_MAX_TIMERS = 30"
    by (simp add: XKTIMER_MAX_TIMERS_def)
  from n m registry_full_rejects [of "replicate 30 (Add 0 (Some 1) XKTIMER_PERIODIC 1000 None)"
      startup 0 "Some 2" XKTIMER_PERIODIC 1000 None 0]
  show ?thesis by simp
qed

section \<open>The simple periodic timer\<close>




text \<open>
  Sequences of polls. The reference is a clock reading from the first call on, so every
  call follows the exact rule; the lemmas follow the loop call by call.
\<close>

lemma length_periodic_polls: "length (periodic_polls tks P cs) = length cs"
  by (induction cs arbitrary: tks) simp_all











end
